theory Spec2Isabelle
  imports Complex_Main
begin

section \<open>Python strings\<close>

text \<open>
  A Python \<open>str\<close> is modelled as a \<open>string\<close> whose characters are the code points
  below 256. \<open>isspace\<close> lists the code points of that range for which Python's
  \<open>str.isspace\<close> holds; \<open>str.strip()\<close> without argument removes exactly those from
  both ends.
\<close>

definition whitespace_chars :: "char list" where
  "whitespace_chars =
     [CHR 0x09, CHR 0x0A, CHR 0x0B, CHR 0x0C, CHR 0x0D,
      CHR 0x1C, CHR 0x1D, CHR 0x1E, CHR 0x1F, CHR 0x20, CHR 0x85, CHR 0xA0]"

definition isspace :: "char \<Rightarrow> bool" where
  "isspace c = (c \<in> set whitespace_chars)"

definition lstrip :: "string \<Rightarrow> string" where
  "lstrip s = dropWhile isspace s"

definition rstrip :: "string \<Rightarrow> string" where
  "rstrip s = rev (dropWhile isspace (rev s))"

definition strip :: "string \<Rightarrow> string" where
  "strip s = rstrip (lstrip s)"

definition startswith :: "string \<Rightarrow> string \<Rightarrow> bool" where
  "startswith s p = (take (length p) s = p)"

text \<open>
  \<open>s.replace(old, new)\<close>: the non-overlapping occurrences of \<open>old\<close> are replaced from
  left to right; an empty \<open>old\<close> matches before every character and at the end.
\<close>

function replace :: "string \<Rightarrow> string \<Rightarrow> string \<Rightarrow> string" where
  "replace [] old new = (if old = [] then new else [])"
| "replace (c # cs) old new =
     (if old = [] then new @ c # replace cs old new
      else if startswith (c # cs) old then new @ replace (drop (length old) (c # cs)) old new
      else c # replace cs old new)"
  by pat_completeness auto
termination
  by (relation "measure (\<lambda>(s, old, new). length s)") auto

definition lower_char :: "char \<Rightarrow> char" where
  "lower_char c =
     (let n = (of_char c :: nat)
      in if (65 \<le> n \<and> n \<le> 90) \<or> (192 \<le> n \<and> n \<le> 222 \<and> n \<noteq> 215)
         then char_of (n + 32) else c)"

definition lower :: "string \<Rightarrow> string" where
  "lower s = map lower_char s"

section \<open>Errors\<close>

datatype py_error =
    ValueError string
  | ValidationError "string list"
  | FileNotFoundError string
  | OSError string
  | UnicodeDecodeError string
  | TypeError string
  | Exception string

section \<open>schemas.py\<close>

datatype PlotStatus = available | taken | pending

datatype IntendedUse = residential | commercial | agricultural | industrial | mixed

datatype OrderStatus = order_pending | approved | rejected

text \<open>The value of each member of the three \<open>str\<close> enums.\<close>

fun PlotStatus_value :: "PlotStatus \<Rightarrow> string" where
  "PlotStatus_value available = ''available''"
| "PlotStatus_value taken = ''taken''"
| "PlotStatus_value pending = ''pending''"

fun IntendedUse_value :: "IntendedUse \<Rightarrow> string" where
  "IntendedUse_value residential = ''residential''"
| "IntendedUse_value commercial = ''commercial''"
| "IntendedUse_value agricultural = ''agricultural''"
| "IntendedUse_value industrial = ''industrial''"
| "IntendedUse_value mixed = ''mixed''"

fun OrderStatus_value :: "OrderStatus \<Rightarrow> string" where
  "OrderStatus_value order_pending = ''pending''"
| "OrderStatus_value approved = ''approved''"
| "OrderStatus_value rejected = ''rejected''"

text \<open>
  Validation of an enum field from a string: the members are tried in declaration order
  and the one whose value equals the input is returned; no member, no value.
\<close>

fun enum_lookup :: "('a \<Rightarrow> string) \<Rightarrow> 'a list \<Rightarrow> string \<Rightarrow> 'a option" where
  "enum_lookup val [] s = None"
| "enum_lookup val (m # ms) s = (if val m = s then Some m else enum_lookup val ms s)"

definition PlotStatus_of :: "string \<Rightarrow> PlotStatus option" where
  "PlotStatus_of s = enum_lookup PlotStatus_value [available, taken, pending] s"

definition IntendedUse_of :: "string \<Rightarrow> IntendedUse option" where
  "IntendedUse_of s =
     enum_lookup IntendedUse_value [residential, commercial, agricultural, industrial, mixed] s"

definition OrderStatus_of :: "string \<Rightarrow> OrderStatus option" where
  "OrderStatus_of s = enum_lookup OrderStatus_value [order_pending, approved, rejected] s"

record OrderStatusUpdate =
  osu_status :: OrderStatus
  osu_notes :: "string option"

definition OrderStatusUpdate_validate :: "string \<Rightarrow> string option \<Rightarrow> py_error + OrderStatusUpdate" where
  "OrderStatusUpdate_validate st nt =
     (case OrderStatus_of st of
        None \<Rightarrow> Inl (ValueError ''status'')
      | Some v \<Rightarrow> Inr \<lparr>osu_status = v, osu_notes = nt\<rparr>)"

definition validate_customer_name :: "string \<Rightarrow> py_error + string" where
  "validate_customer_name v =
     (if v = [] \<or> length (strip v) < 2
      then Inl (ValueError ''Customer name must be at least 2 characters long'')
      else Inr (strip v))"

definition validate_customer_phone :: "string \<Rightarrow> py_error + string" where
  "validate_customer_phone v =
     (if v = [] \<or> length (strip v) < 10
      then Inl (ValueError ''Customer phone must be at least 10 characters long'')
      else let phone = replace (replace (strip v) '' '' '''') ''-'' ''''
           in if \<not> startswith phone ''+255'' \<and> \<not> startswith phone ''255''
                 \<and> \<not> startswith phone ''0''
              then Inl (ValueError ''Phone number must be a valid Tanzania number'')
              else Inr phone)"

definition validate_customer_id_number :: "string \<Rightarrow> py_error + string" where
  "validate_customer_id_number v =
     (if v = [] \<or> length (strip v) < 5
      then Inl (ValueError ''Customer ID number must be at least 5 characters long'')
      else Inr (strip v))"

text \<open>
  \<open>PlotOrderCreate\<close>: every field is validated, in declaration order, and the names of
  the fields that fail are collected; the model is built only when none fails. The check
  of \<open>EmailStr\<close> belongs to the validation library and is a parameter.
\<close>

record PlotOrderCreate =
  customer_name :: string
  customer_phone :: string
  customer_email :: "string option"
  customer_id_number :: string
  intended_use :: IntendedUse
  order_notes :: "string option"

definition PlotOrderCreate_errors ::
  "(string \<Rightarrow> string option) \<Rightarrow> string \<Rightarrow> string \<Rightarrow> string option \<Rightarrow> string \<Rightarrow> string
     \<Rightarrow> string list" where
  "PlotOrderCreate_errors EmailStr nm ph ml idn use =
     (if isl (validate_customer_name nm) then [''customer_name''] else []) @
     (if isl (validate_customer_phone ph) then [''customer_phone''] else []) @
     (case ml of None \<Rightarrow> []
      | Some m \<Rightarrow> (if EmailStr m = None then [''customer_email''] else [])) @
     (if isl (validate_customer_id_number idn) then [''customer_id_number''] else []) @
     (if IntendedUse_of use = None then [''intended_use''] else [])"

definition PlotOrderCreate_validate ::
  "(string \<Rightarrow> string option) \<Rightarrow> string \<Rightarrow> string \<Rightarrow> string option \<Rightarrow> string \<Rightarrow> string
     \<Rightarrow> string option \<Rightarrow> py_error + PlotOrderCreate" where
  "PlotOrderCreate_validate EmailStr nm ph ml idn use nt =
     (case PlotOrderCreate_errors EmailStr nm ph ml idn use of
        [] \<Rightarrow> Inr \<lparr>customer_name = projr (validate_customer_name nm),
                   customer_phone = projr (validate_customer_phone ph),
                   customer_email = (case ml of None \<Rightarrow> None | Some m \<Rightarrow> EmailStr m),
                   customer_id_number = projr (validate_customer_id_number idn),
                   intended_use = the (IntendedUse_of use),
                   order_notes = nt\<rparr>
      | e # es \<Rightarrow> Inl (ValidationError (e # es)))"

section \<open>Geometries\<close>

text \<open>
  A coordinate is \<open>(x, y)\<close> or \<open>(x, y, z)\<close>; every finite floating-point number is a
  rational. The shapes are those a shapefile can hold, under the names that fiona and
  shapely give them.
\<close>

type_synonym coord = "rat \<times> rat \<times> rat option"

datatype shape =
    Point coord
  | LineString "coord list"
  | Polygon "coord list list"
  | MultiPoint "coord list"
  | MultiLineString "coord list list"
  | MultiPolygon "coord list list list"

fun geom_type :: "shape \<Rightarrow> string" where
  "geom_type (Point c) = ''Point''"
| "geom_type (LineString cs) = ''LineString''"
| "geom_type (Polygon rs) = ''Polygon''"
| "geom_type (MultiPoint cs) = ''MultiPoint''"
| "geom_type (MultiLineString ls) = ''MultiLineString''"
| "geom_type (MultiPolygon ps) = ''MultiPolygon''"

fun coords_of :: "shape \<Rightarrow> coord list" where
  "coords_of (Point c) = [c]"
| "coords_of (LineString cs) = cs"
| "coords_of (Polygon rs) = concat rs"
| "coords_of (MultiPoint cs) = cs"
| "coords_of (MultiLineString ls) = concat ls"
| "coords_of (MultiPolygon ps) = concat (concat ps)"

text \<open>\<open>shapely.ops.transform(f, geom)\<close>: the same shape with \<open>f\<close> applied to every coordinate.\<close>

fun transform :: "(coord \<Rightarrow> coord) \<Rightarrow> shape \<Rightarrow> shape" where
  "transform f (Point c) = Point (f c)"
| "transform f (LineString cs) = LineString (map f cs)"
| "transform f (Polygon rs) = Polygon (map (map f) rs)"
| "transform f (MultiPoint cs) = MultiPoint (map f cs)"
| "transform f (MultiLineString ls) = MultiLineString (map (map f) ls)"
| "transform f (MultiPolygon ps) = MultiPolygon (map (map (map f)) ps)"

text \<open>A PostGIS geometry value: a shape tagged with its SRID (0 when unknown).\<close>

record geometry =
  srid :: nat
  shp :: shape

definition has_z :: "shape \<Rightarrow> bool" where
  "has_z s = list_ex (\<lambda>(x, y, z). z \<noteq> None) (coords_of s)"

definition ST_GeomFromGeoJSON :: "shape \<Rightarrow> geometry" where
  "ST_GeomFromGeoJSON s = \<lparr>srid = 4326, shp = s\<rparr>"

definition ST_Force2D :: "geometry \<Rightarrow> geometry" where
  "ST_Force2D g = g\<lparr>shp := transform (\<lambda>(x, y, z). (x, y, None)) (shp g)\<rparr>"

fun multi :: "shape \<Rightarrow> shape" where
  "multi (Point c) = MultiPoint [c]"
| "multi (LineString cs) = MultiLineString [cs]"
| "multi (Polygon rs) = MultiPolygon [rs]"
| "multi (MultiPoint cs) = MultiPoint cs"
| "multi (MultiLineString ls) = MultiLineString ls"
| "multi (MultiPolygon ps) = MultiPolygon ps"

definition ST_Multi :: "geometry \<Rightarrow> geometry" where
  "ST_Multi g = g\<lparr>shp := multi (shp g)\<rparr>"

text \<open>
  The type modifier \<open>geometry(MultiPolygon,4326)\<close>, of a column or of a cast: a geometry of
  unknown SRID takes the SRID of the modifier; then the SRID has to be 4326, the shape a
  MultiPolygon and the coordinates two-dimensional, or the statement fails.
\<close>

definition geometry_MultiPolygon_4326 :: "geometry \<Rightarrow> py_error + geometry" where
  "geometry_MultiPolygon_4326 g =
     (let g' = (if srid g = 0 then g\<lparr>srid := 4326\<rparr> else g)
      in if srid g' \<noteq> 4326 then Inl (Exception ''Geometry SRID does not match column SRID'')
         else if geom_type (shp g') \<noteq> ''MultiPolygon''
           then Inl (Exception ''Geometry type does not match column type'')
         else if has_z (shp g') then Inl (Exception ''Geometry has Z dimension but column does not'')
         else Inr g')"

section \<open>Tables and the database session\<close>

datatype jval =
    JNull
  | JString string
  | JNumber rat
  | JBool bool
  | JObject "(string \<times> jval) list"
  | JGeometry geometry

type_synonym jsonb = "(string \<times> jval) list"

datatype cell =
    Null
  | Integer int
  | Text string
  | Numeric rat
  | Boolean bool
  | Jsonb jsonb
  | Geom geometry

text \<open>
  A table is its columns, as \<open>information_schema.columns\<close> lists them (name and data type,
  by ordinal position), and its rows; a row gives the cell of each column.
\<close>

type_synonym row = "(string \<times> cell) list"

record table =
  columns :: "(string \<times> string) list"
  rows :: "row list"

record land_plot =
  plot_code :: string
  status :: string
  area_hectares :: rat
  district :: string
  ward :: string
  village :: string
  dataset_name :: string
  geometry :: geometry
  attributes :: "jsonb option"
  created_at :: nat
  updated_at :: nat

text \<open>
  The database: the table \<open>land_plots\<close> and the other tables by name. A session holds
  the committed state and the state its open transaction sees.
\<close>

record database =
  land_plots :: "land_plot list"
  tables :: "string \<Rightarrow> table option"

record session =
  committed :: database
  current :: database

definition execute :: "(database \<Rightarrow> database) \<Rightarrow> session \<Rightarrow> session" where
  "execute stmt s = s\<lparr>current := stmt (current s)\<rparr>"

definition commit :: "session \<Rightarrow> session" where
  "commit s = s\<lparr>committed := current s\<rparr>"

definition rollback :: "session \<Rightarrow> session" where
  "rollback s = s\<lparr>current := committed s\<rparr>"

definition DROP_TABLE_IF_EXISTS :: "string \<Rightarrow> database \<Rightarrow> database" where
  "DROP_TABLE_IF_EXISTS n d = d\<lparr>tables := (tables d)(n := None)\<rparr>"

definition CREATE_TABLE :: "string \<Rightarrow> (string \<times> string) list \<Rightarrow> database \<Rightarrow> database" where
  "CREATE_TABLE n cols d = d\<lparr>tables := (tables d)(n \<mapsto> \<lparr>columns = cols, rows = []\<rparr>)\<rparr>"

section \<open>SQL functions used by the importer\<close>

function str_nat :: "nat \<Rightarrow> string" where
  "str_nat n = (if n < 10 then [char_of (48 + n)]
                else str_nat (n div 10) @ [char_of (48 + n mod 10)])"
  by pat_completeness auto
termination
  by (relation "measure id") auto

definition LPAD :: "string \<Rightarrow> nat \<Rightarrow> char \<Rightarrow> string" where
  "LPAD s n c = (if n \<le> length s then take n s else replicate (n - length s) c @ s)"

definition NULLIF :: "string option \<Rightarrow> string \<Rightarrow> string option" where
  "NULLIF a b = (if a = Some b then None else a)"

text \<open>
  \<open>COALESCE(a1, ..., an, d)\<close> with a last argument \<open>d\<close> that is never NULL. The arguments
  are evaluated from the left until one is not NULL, so an argument that would fail is
  only a failure when all those before it are NULL.
\<close>

fun COALESCE :: "(py_error + 'a option) list \<Rightarrow> 'a \<Rightarrow> py_error + 'a" where
  "COALESCE [] d = Inr d"
| "COALESCE (Inl e # as) d = Inl e"
| "COALESCE (Inr (Some v) # as) d = Inr v"
| "COALESCE (Inr None # as) d = COALESCE as d"

text \<open>\<open>ROUND(x, n)\<close> on \<open>NUMERIC\<close>: to \<open>n\<close> decimal places, ties away from zero.\<close>

definition ROUND :: "rat \<Rightarrow> nat \<Rightarrow> rat" where
  "ROUND x n = sgn x * of_int \<lfloor>\<bar>x\<bar> * 10 ^ n + 1 / 2\<rfloor> / 10 ^ n"

section \<open>The world outside the importer\<close>

record db_url =
  host :: string
  port :: "nat option"
  database_name :: string
  username :: string
  password :: string

record fiona_feature =
  feature_geometry :: "shape option"
  properties :: "jsonb option"

record fiona_source =
  crs :: "string option"
  features :: "fiona_feature list"

text \<open>
  How a step guarded by a narrow \<open>except\<close> clause ends: it completes with a value; or it
  raises one of the exceptions the clause names (\<open>CalledProcessError\<close> or
  \<open>FileNotFoundError\<close> around \<open>subprocess.run\<close>, \<open>ImportError\<close> around the imports of the
  fallback path), which the importer catches; or it raises any other exception (a
  \<open>PermissionError\<close>, another \<open>OSError\<close>, a \<open>UnicodeDecodeError\<close> of \<open>text=True\<close>), which
  the importer does not catch.
\<close>

datatype 'a outcome = Completed 'a | Failed | Raised py_error

text \<open>
  What the importer reads from outside: the file system, the external programs, the
  Python libraries of the fallback path, and the functions of PostgreSQL and PostGIS whose
  values are not computed here.
  \<^item> \<open>ogrinfo\<close>: the run of \<open>ogrinfo -so -al\<close>; when it completes, the feature count, extent
    and fields that the line-by-line reading of its output yields;
  \<^item> \<open>gdal_version\<close>: the run of \<open>ogr2ogr --version\<close>;
  \<^item> \<open>ogr2ogr\<close>: for the command line of the import, whether the program returned 0 (any
    exception there is caught), and the table it wrote to the layer named by \<open>-nln\<close>, if it
    wrote one;
  \<^item> \<open>fallback_libraries\<close>: the imports of fiona, shapely and pyproj;
  \<^item> \<open>fiona_open\<close>: \<open>None\<close> when the file cannot be read;
  \<^item> \<open>json_dumps\<close>: \<open>json.dumps\<close> of the properties of a feature, \<open>None\<close> when it raises
    \<open>TypeError\<close> (the properties object of recent fiona versions is not serialisable);
  \<^item> \<open>pyproj_transform src\<close>: the transformation from the CRS \<open>src\<close> to EPSG:4326; a CRS is
    known by its name, and two CRS are equal when their names are;
  \<^item> \<open>numeric_in\<close>: \<open>CAST(text AS NUMERIC)\<close>, \<open>None\<close> for a text that is not a number;
  \<^item> \<open>jsonb_out\<close>: the text of a JSON value that is not a string;
  \<^item> \<open>ST_Area_hectares g\<close>: the value of \<open>CAST(ST_Area(geography(g)) / 10000 AS NUMERIC)\<close>.
    The area and the quotient are double-precision numbers, and the cast keeps 15
    significant digits: these steps are PostgreSQL's, only their result is used here;
  \<^item> \<open>NOW\<close>: the time of the transaction.
\<close>

record env =
  path_exists :: "string \<Rightarrow> bool"
  getsize :: "string \<Rightarrow> nat"
  ogrinfo :: "string \<Rightarrow> (nat \<times> rat list option \<times> (string \<times> string) list) outcome"
  gdal_version :: "unit outcome"
  ogr2ogr :: "string list \<Rightarrow> bool \<times> table option"
  fallback_libraries :: "unit outcome"
  fiona_open :: "string \<Rightarrow> fiona_source option"
  json_dumps :: "jsonb \<Rightarrow> jsonb option"
  pyproj_transform :: "string \<Rightarrow> coord \<Rightarrow> coord"
  engine_url :: db_url
  numeric_in :: "string \<Rightarrow> rat option"
  jsonb_out :: "jval \<Rightarrow> string"
  ST_Area_hectares :: "geometry \<Rightarrow> rat"
  NOW :: nat

definition CAST_NUMERIC :: "env \<Rightarrow> string option \<Rightarrow> py_error + rat option" where
  "CAST_NUMERIC e t =
     (case t of None \<Rightarrow> Inr None
      | Some s \<Rightarrow> (case numeric_in e s of
                    None \<Rightarrow> Inl (Exception ''invalid input syntax for type numeric'')
                  | Some n \<Rightarrow> Inr (Some n)))"

text \<open>\<open>j ->> k\<close>: the value of key \<open>k\<close> as text, NULL when the key is absent or its value is null.\<close>

definition json_text :: "env \<Rightarrow> jsonb option \<Rightarrow> string \<Rightarrow> string option" where
  "json_text e j k =
     (case j of None \<Rightarrow> None
      | Some kvs \<Rightarrow> (case map_of kvs k of
                      None \<Rightarrow> None
                    | Some JNull \<Rightarrow> None
                    | Some (JString s) \<Rightarrow> Some s
                    | Some v \<Rightarrow> Some (jsonb_out e v)))"

fun to_jsonb :: "cell \<Rightarrow> jval" where
  "to_jsonb Null = JNull"
| "to_jsonb (Integer i) = JNumber (of_int i)"
| "to_jsonb (Text s) = JString s"
| "to_jsonb (Numeric r) = JNumber r"
| "to_jsonb (Boolean b) = JBool b"
| "to_jsonb (Jsonb j) = JObject j"
| "to_jsonb (Geom g) = JGeometry g"

section \<open>seed\_data.py: ShapefileImporter\<close>

text \<open>
  The importer holds the session and the name of the staging table. \<open>trace\<close> is not a
  field of the Python object: it records, in order, the methods entered, the external
  programs run and the files opened, so that the order of the attempts can be stated.
  A method returns its value, or the exception that leaves it, and the importer as the
  method left it.
\<close>

datatype event = Call string | Run "string list" | Open_file string

record ShapefileImporter =
  db :: session
  temp_table :: string
  trace :: "event list"

definition ShapefileImporter_init :: "session \<Rightarrow> ShapefileImporter" where
  "ShapefileImporter_init db_session =
     \<lparr>db = db_session, temp_table = ''temp_shapefile_import'', trace = []\<rparr>"

definition log_event :: "event \<Rightarrow> ShapefileImporter \<Rightarrow> ShapefileImporter" where
  "log_event ev self = self\<lparr>trace := trace self @ [ev]\<rparr>"

definition check_gdal_availability ::
  "env \<Rightarrow> ShapefileImporter \<Rightarrow> (py_error + bool) \<times> ShapefileImporter" where
  "check_gdal_availability e self =
     (let self1 = log_event (Run [''ogr2ogr'', ''--version''])
                    (log_event (Call ''check_gdal_availability'') self)
      in case gdal_version e of
           Completed u \<Rightarrow> (Inr True, self1)
         | Failed \<Rightarrow> (Inr False, self1)
         | Raised err \<Rightarrow> (Inl err, self1))"

record shapefile_info =
  info_path :: string
  info_exists :: bool
  info_size :: nat
  info_crs :: "string option"
  info_feature_count :: nat
  info_bounds :: "rat list option"
  info_fields :: "(string \<times> string) list"

definition get_shapefile_info ::
  "env \<Rightarrow> ShapefileImporter \<Rightarrow> string \<Rightarrow> (py_error + shapefile_info) \<times> ShapefileImporter" where
  "get_shapefile_info e self shapefile_path =
     (let self1 = log_event (Call ''get_shapefile_info'') self;
          info = \<lparr>info_path = shapefile_path, info_exists = path_exists e shapefile_path,
                  info_size = 0, info_crs = None, info_feature_count = 0,
                  info_bounds = None, info_fields = []\<rparr>
      in if \<not> info_exists info then (Inr info, self1)
         else
           let info1 = info\<lparr>info_size := getsize e shapefile_path\<rparr>;
               self2 = log_event (Run [''ogrinfo'', ''-so'', ''-al'', shapefile_path]) self1
           in (case ogrinfo e shapefile_path of
                 Completed (n, ext, flds) \<Rightarrow>
                   (Inr (info1\<lparr>info_feature_count := n, info_bounds := ext,
                               info_fields := flds\<rparr>),
                    self2)
               | Failed \<Rightarrow> (Inr info1, self2)
               | Raised err \<Rightarrow> (Inl err, self2)))"

definition pg_conn :: "db_url \<Rightarrow> string" where
  "pg_conn u =
     ''PG:host='' @ host u @ '' port=''
       @ str_nat (case port u of None \<Rightarrow> 5432 | Some p \<Rightarrow> if p = 0 then 5432 else p)
       @ '' dbname='' @ database_name u @ '' user='' @ username u
       @ '' password='' @ password u"

definition ogr2ogr_cmd :: "string \<Rightarrow> string \<Rightarrow> string \<Rightarrow> string list" where
  "ogr2ogr_cmd conn shapefile_path tt =
     [''ogr2ogr'',
      ''-f'', ''PostgreSQL'',
      conn,
      shapefile_path,
      ''-nln'', tt,
      ''-nlt'', ''MULTIPOLYGON'',
      ''-t_srs'', ''EPSG:4326'',
      ''-lco'', ''GEOMETRY_NAME=geometry'',
      ''-lco'', ''PRECISION=NO'',
      ''-overwrite'',
      ''-progress'']"

text \<open>The value that follows an option on a command line.\<close>

fun option_value :: "string list \<Rightarrow> string \<Rightarrow> string option" where
  "option_value [] opt = None"
| "option_value [a] opt = None"
| "option_value (a # b # as) opt = (if a = opt then Some b else option_value (b # as) opt)"

text \<open>
  The external program writes through a connection of its own: what it writes is
  committed at once, and visible to the session.
\<close>

definition write_layer :: "string option \<Rightarrow> table option \<Rightarrow> session \<Rightarrow> session" where
  "write_layer layer written s =
     (case (layer, written) of
        (Some n, Some t) \<Rightarrow>
          \<lparr>committed = (committed s)\<lparr>tables := (tables (committed s))(n \<mapsto> t)\<rparr>,
           current = (current s)\<lparr>tables := (tables (current s))(n \<mapsto> t)\<rparr>\<rparr>
      | _ \<Rightarrow> s)"

text \<open>
  \<open>check_gdal_availability\<close> is called before the \<open>try\<close> of \<open>import_with_ogr2ogr\<close>: an
  exception that leaves it leaves \<open>import_with_ogr2ogr\<close> too. Inside the \<open>try\<close> every
  exception is caught and \<open>False\<close> returned.
\<close>

definition import_with_ogr2ogr ::
  "env \<Rightarrow> ShapefileImporter \<Rightarrow> string \<Rightarrow> (py_error + bool) \<times> ShapefileImporter" where
  "import_with_ogr2ogr e self shapefile_path =
     (case check_gdal_availability e (log_event (Call ''import_with_ogr2ogr'') self) of
        (Inl err, self1) \<Rightarrow> (Inl err, self1)
      | (Inr gdal_available, self1) \<Rightarrow>
          if \<not> gdal_available then (Inr False, self1)
          else
            let conn = pg_conn (engine_url e);
                self2 = self1\<lparr>db := commit (execute (DROP_TABLE_IF_EXISTS (temp_table self1))
                                               (db self1))\<rparr>;
                cmd = ogr2ogr_cmd conn shapefile_path (temp_table self2);
                self3 = log_event (Run cmd) self2;
                (returned_0, written) = ogr2ogr e cmd
            in (Inr returned_0,
                self3\<lparr>db := write_layer (option_value cmd ''-nln'') written (db self3)\<rparr>))"

text \<open>The columns of the staging table that the fallback path creates.\<close>

definition fallback_columns :: "(string \<times> string) list" where
  "fallback_columns =
     [(''id'', ''integer''), (''geometry'', ''USER-DEFINED''), (''attributes'', ''jsonb'')]"

definition INSERT_staging :: "string \<Rightarrow> geometry \<Rightarrow> jsonb \<Rightarrow> database \<Rightarrow> py_error + database" where
  "INSERT_staging tt g attrs d =
     (case tables d tt of
        None \<Rightarrow> Inl (Exception ''relation does not exist'')
      | Some t \<Rightarrow>
          (case geometry_MultiPolygon_4326 g of
             Inl err \<Rightarrow> Inl err
           | Inr g' \<Rightarrow>
               Inr (d\<lparr>tables := (tables d)(tt \<mapsto>
                      t\<lparr>rows := rows t @ [[(''id'', Integer (int (length (rows t)) + 1)),
                                            (''geometry'', Geom g'),
                                            (''attributes'', Jsonb attrs)]]\<rparr>)\<rparr>)))"

text \<open>
  \<open>json.dumps(feature['properties'] or {})\<close>: missing or empty properties become the
  empty object; other properties are serialised, which may fail.
\<close>

definition dumps_properties :: "env \<Rightarrow> fiona_feature \<Rightarrow> py_error + jsonb" where
  "dumps_properties e feature =
     (case properties feature of
        None \<Rightarrow> Inr []
      | Some p \<Rightarrow>
          if p = [] then Inr []
          else (case json_dumps e p of
                  None \<Rightarrow> Inl (TypeError ''Object is not JSON serializable'')
                | Some j \<Rightarrow> Inr j))"

definition stage_feature ::
  "env \<Rightarrow> (coord \<Rightarrow> coord) option \<Rightarrow> string \<Rightarrow> fiona_feature \<Rightarrow> session
     \<Rightarrow> py_error + session" where
  "stage_feature e transformer tt feature s =
     (case feature_geometry feature of
        None \<Rightarrow> Inl (Exception ''feature without geometry'')
      | Some geom0 \<Rightarrow>
          let geom1 = (case transformer of None \<Rightarrow> geom0 | Some f \<Rightarrow> transform f geom0);
              geom2 = (case geom1 of Polygon rings \<Rightarrow> MultiPolygon [rings] | _ \<Rightarrow> geom1)
          in (case dumps_properties e feature of
                Inl err \<Rightarrow> Inl err
              | Inr attrs \<Rightarrow>
                  (case INSERT_staging tt (ST_GeomFromGeoJSON geom2) attrs (current s) of
                     Inl err \<Rightarrow> Inl err
                   | Inr d \<Rightarrow> Inr (s\<lparr>current := d\<rparr>))))"

fun stage_features ::
  "env \<Rightarrow> (coord \<Rightarrow> coord) option \<Rightarrow> string \<Rightarrow> fiona_feature list \<Rightarrow> session
     \<Rightarrow> py_error + session" where
  "stage_features e transformer tt [] s = Inr s"
| "stage_features e transformer tt (f # fs) s =
     (case stage_feature e transformer tt f s of
        Inl err \<Rightarrow> Inl err
      | Inr s' \<Rightarrow> stage_features e transformer tt fs s')"

text \<open>
  The coordinate transformation of the fallback path: set up only when the source has a
  CRS and that CRS is not the target EPSG:4326.
\<close>

definition fallback_transformer :: "env \<Rightarrow> fiona_source \<Rightarrow> (coord \<Rightarrow> coord) option" where
  "fallback_transformer e src =
     (case crs src of
        None \<Rightarrow> None
      | Some source_crs \<Rightarrow>
          if source_crs \<noteq> ''EPSG:4326''
          then Some (pyproj_transform e source_crs) else None)"

text \<open>
  The imports are guarded by \<open>except ImportError\<close> only; the rest of the method by
  \<open>except Exception\<close>, which rolls the session back and returns \<open>False\<close>.
\<close>

definition import_with_fallback ::
  "env \<Rightarrow> ShapefileImporter \<Rightarrow> string \<Rightarrow> (py_error + bool) \<times> ShapefileImporter" where
  "import_with_fallback e self shapefile_path =
     (let self1 = log_event (Call ''import_with_fallback'') self
      in case fallback_libraries e of
           Raised err \<Rightarrow> (Inl err, self1)
         | Failed \<Rightarrow> (Inr False, self1)
         | Completed u \<Rightarrow>
             let s1 = execute (DROP_TABLE_IF_EXISTS (temp_table self1)) (db self1);
                 s2 = commit (execute (CREATE_TABLE (temp_table self1) fallback_columns) s1);
                 self2 = log_event (Open_file shapefile_path) (self1\<lparr>db := s2\<rparr>)
             in (case fiona_open e shapefile_path of
                   None \<Rightarrow> (Inr False, self2\<lparr>db := rollback s2\<rparr>)
                 | Some src \<Rightarrow>
                     let transformer = fallback_transformer e src
                     in (case stage_features e transformer (temp_table self2) (features src) s2 of
                           Inl err \<Rightarrow> (Inr False, self2\<lparr>db := rollback s2\<rparr>)
                         | Inr s3 \<Rightarrow> (Inr True, self2\<lparr>db := commit s3\<rparr>))))"

subsection \<open>The generated INSERT statements\<close>

text \<open>
  The two statements that \<open>process_imported_data\<close> builds are embedded by what they
  compute: a row of \<open>land_plots\<close> for a staged row and its \<open>ROW_NUMBER()\<close>. Names are
  taken to be free of quote characters and to be plain identifiers, so that the text the
  f-strings produce is the statement read here. An unquoted identifier is folded to
  lower case before the column is looked up.
\<close>

definition cell_of :: "row \<Rightarrow> string \<Rightarrow> cell" where
  "cell_of r c = (case map_of r c of None \<Rightarrow> Null | Some v \<Rightarrow> v)"

definition ident :: "string \<Rightarrow> string" where
  "ident c = map (\<lambda>ch. if 65 \<le> (of_char ch :: nat) \<and> (of_char ch :: nat) \<le> 90
                       then char_of ((of_char ch :: nat) + 32) else ch) c"

definition data_type :: "(string \<times> string) list \<Rightarrow> string \<Rightarrow> string option" where
  "data_type cols c = map_of cols (ident c)"

definition text_types :: "string list" where
  "text_types = [''character varying'', ''text'', ''character'']"

definition as_text :: "cell \<Rightarrow> string option" where
  "as_text v = (case v of Text s \<Rightarrow> Some s | _ \<Rightarrow> None)"

definition as_jsonb :: "cell \<Rightarrow> jsonb option" where
  "as_jsonb v = (case v of Jsonb j \<Rightarrow> Some j | _ \<Rightarrow> None)"

definition order_key :: "cell \<Rightarrow> rat" where
  "order_key v = (case v of Integer i \<Rightarrow> of_int i | Numeric x \<Rightarrow> x | _ \<Rightarrow> 0)"

definition default_plot_code :: "string \<Rightarrow> nat \<Rightarrow> string" where
  "default_plot_code ds n = ds @ ''_'' @ LPAD (str_nat n) 4 (CHR ''0'')"

definition geodesic_hectares :: "env \<Rightarrow> geometry \<Rightarrow> rat" where
  "geodesic_hectares e g = ROUND (ST_Area_hectares e g) 4"

definition select_geometry :: "geometry \<Rightarrow> py_error + geometry" where
  "select_geometry g = geometry_MultiPolygon_4326 (ST_Multi (ST_Force2D g))"

text \<open>The statement for a staging table with an \<open>attributes\<close> column.\<close>

definition attributes_plan_ok :: "(string \<times> string) list \<Rightarrow> bool" where
  "attributes_plan_ok cols =
     (data_type cols ''id'' \<noteq> None \<and> data_type cols ''geometry'' = Some ''USER-DEFINED''
      \<and> data_type cols ''attributes'' \<in> {Some ''jsonb'', Some ''json''})"

definition select_attributes ::
  "env \<Rightarrow> string \<Rightarrow> string \<Rightarrow> string \<Rightarrow> string \<Rightarrow> nat \<Rightarrow> row \<Rightarrow> py_error + land_plot" where
  "select_attributes e ds distr wrd vil n r =
     (let a = as_jsonb (cell_of r ''attributes'')
      in case cell_of r ''geometry'' of
           Geom g \<Rightarrow>
             (case COALESCE [Inr (json_text e a ''plot_code''),
                             Inr (json_text e a ''PLOT_CODE''),
                             Inr (json_text e a ''plotcode''),
                             Inr (json_text e a ''code'')]
                     (default_plot_code ds n) of
                Inl err \<Rightarrow> Inl err
              | Inr pc \<Rightarrow>
             (case COALESCE [CAST_NUMERIC e (NULLIF (json_text e a ''area_ha'') []),
                             CAST_NUMERIC e (NULLIF (json_text e a ''AREA_HA'') []),
                             CAST_NUMERIC e (NULLIF (json_text e a ''area'') [])]
                     (geodesic_hectares e g) of
                Inl err \<Rightarrow> Inl err
              | Inr ar \<Rightarrow>
             (case select_geometry g of
                Inl err \<Rightarrow> Inl err
              | Inr gm \<Rightarrow>
                  Inr \<lparr>plot_code = pc, status = ''available'', area_hectares = ar,
                       district = distr, ward = wrd, village = vil, dataset_name = ds,
                       geometry = gm, attributes = a,
                       created_at = NOW e, updated_at = NOW e\<rparr>)))
         | _ \<Rightarrow> Inl (Exception ''column geometry is not of type geometry''))"

text \<open>The statement built from the individual columns.\<close>

definition attr_columns_of :: "(string \<times> string) list \<Rightarrow> string list" where
  "attr_columns_of cols =
     [c \<leftarrow> map fst cols. c \<notin> set [''id'', ''geometry'', ''ogc_fid'', ''wkb_geometry'']]"

definition plot_code_col_of :: "string list \<Rightarrow> string option" where
  "plot_code_col_of attr_columns =
     find (\<lambda>c. lower c \<in> set [''plot_code'', ''plotcode'', ''code'', ''plot_no'', ''plotnum''])
       attr_columns"

definition area_col_of :: "string list \<Rightarrow> string option" where
  "area_col_of attr_columns =
     find (\<lambda>c. lower c \<in> set [''area_ha'', ''area'', ''hectares'']) attr_columns"

definition is_text_column :: "(string \<times> string) list \<Rightarrow> string option \<Rightarrow> bool" where
  "is_text_column cols c =
     (case c of None \<Rightarrow> True
      | Some n \<Rightarrow> (case data_type cols n of None \<Rightarrow> False | Some t \<Rightarrow> t \<in> set text_types))"

definition columns_plan_ok :: "(string \<times> string) list \<Rightarrow> bool" where
  "columns_plan_ok cols =
     (data_type cols ''ogc_fid'' \<noteq> None \<and> data_type cols ''geometry'' = Some ''USER-DEFINED''
      \<and> list_all (\<lambda>c. data_type cols c \<noteq> None) (attr_columns_of cols)
      \<and> is_text_column cols (plot_code_col_of (attr_columns_of cols))
      \<and> is_text_column cols (area_col_of (attr_columns_of cols)))"

definition select_columns ::
  "env \<Rightarrow> (string \<times> string) list \<Rightarrow> string \<Rightarrow> string \<Rightarrow> string \<Rightarrow> string \<Rightarrow> nat \<Rightarrow> row
     \<Rightarrow> py_error + land_plot" where
  "select_columns e cols ds distr wrd vil n r =
     (let attr_columns = attr_columns_of cols;
          json_build =
            (if attr_columns \<noteq> []
             then map (\<lambda>c. (c, to_jsonb (cell_of r (ident c)))) attr_columns
             else []);
          plot_code_col = plot_code_col_of attr_columns;
          plot_code_expr =
            (case plot_code_col of
               Some c \<Rightarrow> COALESCE [Inr (as_text (cell_of r (ident c)))] (default_plot_code ds n)
             | None \<Rightarrow> Inr (default_plot_code ds n));
          area_col = area_col_of attr_columns
      in case cell_of r ''geometry'' of
           Geom g \<Rightarrow>
             (let area_expr =
                    (case area_col of
                       Some c \<Rightarrow>
                         COALESCE [CAST_NUMERIC e (NULLIF (as_text (cell_of r (ident c))) [])]
                           (geodesic_hectares e g)
                     | None \<Rightarrow> Inr (geodesic_hectares e g))
              in case plot_code_expr of
                   Inl err \<Rightarrow> Inl err
                 | Inr pc \<Rightarrow>
                (case area_expr of
                   Inl err \<Rightarrow> Inl err
                 | Inr ar \<Rightarrow>
                (case select_geometry g of
                   Inl err \<Rightarrow> Inl err
                 | Inr gm \<Rightarrow>
                     Inr \<lparr>plot_code = pc, status = ''available'', area_hectares = ar,
                          district = distr, ward = wrd, village = vil, dataset_name = ds,
                          geometry = gm, attributes = Some json_build,
                          created_at = NOW e, updated_at = NOW e\<rparr>)))
         | _ \<Rightarrow> Inl (Exception ''column geometry is not of type geometry''))"

text \<open>
  \<open>FROM temp WHERE geometry IS NOT NULL\<close> with \<open>ROW_NUMBER() OVER (ORDER BY k)\<close>: the rows
  that pass the filter, in the order of column \<open>k\<close>, numbered from 1.
\<close>

definition numbered_rows :: "string \<Rightarrow> table \<Rightarrow> (nat \<times> row) list" where
  "numbered_rows k t =
     (let kept = [r \<leftarrow> rows t. cell_of r ''geometry'' \<noteq> Null];
          sorted = sort_key (\<lambda>r. order_key (cell_of r k)) kept
      in zip [1 ..< Suc (length sorted)] sorted)"

fun all_rows :: "(py_error + 'a) list \<Rightarrow> py_error + 'a list" where
  "all_rows [] = Inr []"
| "all_rows (Inl err # xs) = Inl err"
| "all_rows (Inr x # xs) = (case all_rows xs of Inl err \<Rightarrow> Inl err | Inr ys \<Rightarrow> Inr (x # ys))"

text \<open>
  \<open>INSERT INTO land_plots ... ON CONFLICT (plot_code) DO NOTHING\<close>: \<open>plot_code\<close> is unique
  in \<open>land_plots\<close>; a selected row whose code is already there, from before or from an
  earlier row of the same statement, is left out.
\<close>

fun ON_CONFLICT_DO_NOTHING :: "land_plot list \<Rightarrow> land_plot list \<Rightarrow> land_plot list" where
  "ON_CONFLICT_DO_NOTHING existing [] = existing"
| "ON_CONFLICT_DO_NOTHING existing (p # ps) =
     (if plot_code p \<in> set (map plot_code existing)
      then ON_CONFLICT_DO_NOTHING existing ps
      else ON_CONFLICT_DO_NOTHING (existing @ [p]) ps)"

definition insert_sql ::
  "env \<Rightarrow> table \<Rightarrow> string \<Rightarrow> string \<Rightarrow> string \<Rightarrow> string \<Rightarrow> py_error + land_plot list" where
  "insert_sql e t ds distr wrd vil =
     (let has_attributes_col = list_ex (\<lambda>col. fst col = ''attributes'') (columns t)
      in if has_attributes_col
         then if attributes_plan_ok (columns t)
              then all_rows (map (\<lambda>(n, r). select_attributes e ds distr wrd vil n r)
                               (numbered_rows ''id'' t))
              else Inl (Exception ''column does not exist or has the wrong type'')
         else if columns_plan_ok (columns t)
              then all_rows (map (\<lambda>(n, r). select_columns e (columns t) ds distr wrd vil n r)
                               (numbered_rows ''ogc_fid'' t))
              else Inl (Exception ''column does not exist or has the wrong type''))"

definition process_imported_data ::
  "env \<Rightarrow> ShapefileImporter \<Rightarrow> string \<Rightarrow> string \<Rightarrow> string \<Rightarrow> string
     \<Rightarrow> (py_error + nat) \<times> ShapefileImporter" where
  "process_imported_data e self ds distr wrd vil =
     (let self1 = log_event (Call ''process_imported_data'') self
      in case tables (current (db self1)) (temp_table self1) of
           None \<Rightarrow>
             (Inl (Exception (''Temporary table '' @ temp_table self1 @ '' does not exist'')),
              self1\<lparr>db := rollback (db self1)\<rparr>)
         | Some t \<Rightarrow>
             if length (rows t) = 0
             then (Inl (Exception ''No data found in temporary table''),
                   self1\<lparr>db := rollback (db self1)\<rparr>)
             else
               (case insert_sql e t ds distr wrd vil of
                  Inl err \<Rightarrow> (Inl err, self1\<lparr>db := rollback (db self1)\<rparr>)
                | Inr selected \<Rightarrow>
                    let s1 = commit (execute
                               (\<lambda>d. d\<lparr>land_plots := ON_CONFLICT_DO_NOTHING (land_plots d) selected\<rparr>)
                               (db self1));
                        inserted_count =
                          length [p \<leftarrow> land_plots (current s1). dataset_name p = ds];
                        s2 = commit (execute (DROP_TABLE_IF_EXISTS (temp_table self1)) s1)
                    in (Inr inserted_count, self1\<lparr>db := s2\<rparr>)))"

text \<open>
  \<open>import_shapefile\<close> has no handler of its own: an exception that leaves one of the
  methods it calls leaves it too.
\<close>

definition import_shapefile ::
  "env \<Rightarrow> ShapefileImporter \<Rightarrow> string \<Rightarrow> string \<Rightarrow> string \<Rightarrow> string \<Rightarrow> string
     \<Rightarrow> (py_error + nat) \<times> ShapefileImporter" where
  "import_shapefile e self shapefile_path ds distr wrd vil =
     (case get_shapefile_info e (log_event (Call ''import_shapefile'') self) shapefile_path of
        (Inl err, self1) \<Rightarrow> (Inl err, self1)
      | (Inr info, self1) \<Rightarrow>
          if \<not> info_exists info
          then (Inl (FileNotFoundError (''Shapefile not found: '' @ shapefile_path)), self1)
          else
            (case import_with_ogr2ogr e self1 shapefile_path of
               (Inl err, self2) \<Rightarrow> (Inl err, self2)
             | (Inr success, self2) \<Rightarrow>
                 (case (if \<not> success then import_with_fallback e self2 shapefile_path
                        else (Inr success, self2)) of
                    (Inl err, self3) \<Rightarrow> (Inl err, self3)
                  | (Inr success', self3) \<Rightarrow>
                      if \<not> success'
                      then (Inl (Exception ''Both import methods failed''), self3)
                      else process_imported_data e self3 ds distr wrd vil)))"

section \<open>Notions used to state the properties\<close>

text \<open>The entries of a trace that are attempts to import or to process.\<close>

definition attempts :: "event list \<Rightarrow> event list" where
  "attempts evs =
     [ev \<leftarrow> evs. ev \<in> set [Call ''import_with_ogr2ogr'', Call ''import_with_fallback'',
                            Call ''process_imported_data'']]"

text \<open>
  What an import method may change between two states of the session: the table named
  \<open>tt\<close>. The rows of \<open>land_plots\<close> and the other tables stay as the session saw them; the
  committed state may have caught up with the session, since the methods commit.
\<close>

definition staging_only :: "string \<Rightarrow> session \<Rightarrow> session \<Rightarrow> bool" where
  "staging_only tt s s' =
     (land_plots (current s') = land_plots (current s)
      \<and> land_plots (committed s') \<in> {land_plots (committed s), land_plots (current s)}
      \<and> (\<forall>n. n \<noteq> tt \<longrightarrow>
            tables (current s') n = tables (current s) n
            \<and> tables (committed s') n \<in> {tables (committed s) n, tables (current s) n}))"


text \<open>
  The statement that \<open>process_imported_data\<close> generates for a staging table: whether it
  is the one for an \<open>attributes\<close> column, the column its \<open>ROW_NUMBER()\<close> is ordered by, and
  the row it selects for a staged row.
\<close>

definition has_attributes_col :: "table \<Rightarrow> bool" where
  "has_attributes_col t = list_ex (\<lambda>col. fst col = ''attributes'') (columns t)"


definition select_row ::
  "env \<Rightarrow> table \<Rightarrow> string \<Rightarrow> string \<Rightarrow> string \<Rightarrow> string \<Rightarrow> nat \<Rightarrow> row \<Rightarrow> py_error + land_plot" where
  "select_row e t ds dt wd vl n r =
     (if has_attributes_col t then select_attributes e ds dt wd vl n r
      else select_columns e (columns t) ds dt wd vl n r)"





text \<open>A two-dimensional MultiPolygon with SRID 4326.\<close>

definition is_2d_multipolygon_4326 :: "geometry \<Rightarrow> bool" where
  "is_2d_multipolygon_4326 g =
     (srid g = 4326 \<and> (case shp g of MultiPolygon ps \<Rightarrow> True | _ \<Rightarrow> False)
      \<and> list_all (\<lambda>(x, y, z). z = None) (coords_of (shp g)))"

text \<open>A coordinate that is a longitude and a latitude in degrees, as EPSG:4326 has them.\<close>

definition lon_lat :: "coord \<Rightarrow> bool" where
  "lon_lat c = (case c of (x, y, z) \<Rightarrow> - 180 \<le> x \<and> x \<le> 180 \<and> - 90 \<le> y \<and> y \<le> 90)"

text \<open>
  What the fallback path does to the shape of a feature before staging it: the
  coordinates are transformed when the source names a CRS other than EPSG:4326, and a
  Polygon becomes the MultiPolygon of that one polygon.
\<close>

definition reprojected :: "env \<Rightarrow> fiona_source \<Rightarrow> shape \<Rightarrow> shape" where
  "reprojected e src g =
     (case crs src of
        None \<Rightarrow> g
      | Some c \<Rightarrow> if c = ''EPSG:4326'' then g else transform (pyproj_transform e c) g)"


subsection \<open>A small world to run the importer in\<close>

text \<open>
  One plot is already registered. The shapefile \<open>/data/plots.shp\<close> has no CRS and three
  features, with coordinates in metres; GDAL is not installed, the fallback libraries
  are.
\<close>

definition example_plot :: land_plot where
  "example_plot =
     \<lparr>plot_code = ''MB_0001'', status = ''taken'', area_hectares = 2,
      district = ''Mbuyuni'', ward = ''Mbuyuni Ward'', village = ''Mbuyuni Village'',
      dataset_name = ''old'', geometry = \<lparr>srid = 4326, shp = MultiPolygon []\<rparr>,
      attributes = None, created_at = 0, updated_at = 0\<rparr>"

definition example_session :: session where
  "example_session =
     \<lparr>committed = \<lparr>land_plots = [example_plot], tables = (\<lambda>n. None)\<rparr>,
      current = \<lparr>land_plots = [example_plot], tables = (\<lambda>n. None)\<rparr>\<rparr>"

definition square :: "rat \<Rightarrow> rat \<Rightarrow> coord list" where
  "square x y =
     [(x, y, None), (x + 1, y, None), (x + 1, y + 1, None), (x, y + 1, None), (x, y, None)]"

definition example_source :: fiona_source where
  "example_source =
     \<lparr>crs = None,
      features =
        [\<lparr>feature_geometry = Some (Polygon [square 500000 9000000]),
          properties = Some [(''plot_code'', JString ''MB_0001''),
                             (''area_ha'', JString ''12.5'')]\<rparr>,
         \<lparr>feature_geometry = Some (MultiPolygon [[square 500010 9000000]]),
          properties = Some [(''PLOT_CODE'', JNull), (''area_ha'', JString []),
                             (''area'', JString ''3'')]\<rparr>,
         \<lparr>feature_geometry = Some (Polygon [square 500020 9000000]),
          properties = None\<rparr>]\<rparr>"

definition example_env :: env where
  "example_env =
     \<lparr>path_exists = (\<lambda>p. p = ''/data/plots.shp''),
      getsize = (\<lambda>p. 1024),
      ogrinfo = (\<lambda>p. Failed),
      gdal_version = Failed,
      ogr2ogr = (\<lambda>cmd. (False, None)),
      fallback_libraries = Completed (),
      fiona_open = (\<lambda>p. if p = ''/data/plots.shp'' then Some example_source else None),
      json_dumps = (\<lambda>p. Some p),
      pyproj_transform = (\<lambda>c (x, y, z). (x / 100000, y / 100000, z)),
      engine_url = \<lparr>host = ''localhost'', port = Some 5432,
                    database_name = ''tanzania_land_plots'',
                    username = ''postgres'', password = ''password''\<rparr>,
      numeric_in = map_of [(''12.5'', 25 / 2), (''3'', 3), (''4.25'', 17 / 4)],
      jsonb_out = (\<lambda>v. ''?''),
      ST_Area_hectares = (\<lambda>g. 1234567 / 100000),
      NOW = 7\<rparr>"

definition example_importer :: ShapefileImporter where
  "example_importer = ShapefileImporter_init example_session"

text \<open>The same world with an \<open>ogrinfo\<close> that is on the path but may not be executed.\<close>

definition example_denied_env :: env where
  "example_denied_env = example_env\<lparr>ogrinfo := (\<lambda>p. Raised (OSError ''Permission denied''))\<rparr>"









text \<open>
  The plot code and the attributes of a selected row, in the words of the specification:
  the code is the first candidate that is present, and the dataset name with the
  zero-padded row number without one; the attributes are the staged JSONB value on the
  fallback path, and the object of all attribute columns on the native path.
\<close>

fun first_present :: "'a option list \<Rightarrow> 'a option" where
  "first_present [] = None"
| "first_present (None # ts) = first_present ts"
| "first_present (Some s # ts) = Some s"

definition plot_code_candidates :: "env \<Rightarrow> table \<Rightarrow> row \<Rightarrow> string option list" where
  "plot_code_candidates e t r =
     (if has_attributes_col t
      then map (json_text e (as_jsonb (cell_of r ''attributes'')))
             [''plot_code'', ''PLOT_CODE'', ''plotcode'', ''code'']
      else (case find (\<lambda>c. lower c \<in> set [''plot_code'', ''plotcode'', ''code'', ''plot_no'',
                                             ''plotnum''])
                   (attr_columns_of (columns t)) of
              None \<Rightarrow> []
            | Some c \<Rightarrow> [as_text (cell_of r (ident c))]))"

definition plot_code_rule :: "env \<Rightarrow> table \<Rightarrow> string \<Rightarrow> nat \<Rightarrow> row \<Rightarrow> string" where
  "plot_code_rule e t ds n r =
     (case first_present (plot_code_candidates e t r) of
        Some s \<Rightarrow> s
      | None \<Rightarrow> ds @ ''_'' @ LPAD (str_nat n) 4 (CHR ''0''))"

definition attributes_rule :: "table \<Rightarrow> row \<Rightarrow> jsonb option" where
  "attributes_rule t r =
     (if has_attributes_col t then as_jsonb (cell_of r ''attributes'')
      else Some (map (\<lambda>c. (c, to_jsonb (cell_of r (ident c)))) (attr_columns_of (columns t))))"


section \<open>Properties of the validation schemas\<close>

lemma enum_lookup_None: "(enum_lookup val ms s = None) \<longleftrightarrow> s \<notin> val ` set ms"
  by (induction ms) auto

lemma replace_single_empty: "replace s [c] [] = filter (\<lambda>x. x \<noteq> c) s"
  by (induction s) (auto simp: startswith_def)

text \<open>
  C6. The plot status domain is exactly \<open>available\<close>, \<open>taken\<close>, \<open>pending\<close>: the
  \<open>PlotStatus\<close> enum accepts each of these three strings, giving the member of that
  name, and rejects every other string.
\<close>

theorem PlotStatus_domain:
  "PlotStatus_of ''available'' = Some available \<and>
   PlotStatus_of ''taken'' = Some taken \<and>
   PlotStatus_of ''pending'' = Some pending \<and>
   ((PlotStatus_of s = None) = (s \<notin> {''available'', ''taken'', ''pending''}))"
  unfolding PlotStatus_of_def enum_lookup_None by simp

theorem PlotStatus_domain_witness:
  "PlotStatus_of ''taken'' = Some taken \<and> PlotStatus_of ''Available'' = None
   \<and> PlotStatus_of ''sold'' = None"
  using PlotStatus_domain [of "''Available''"] PlotStatus_domain [of "''sold''"] by simp

lemma enum_lookup_Some_value: "enum_lookup val ms s = Some m \<Longrightarrow> val m = s"
  by (induction ms) (auto split: if_splits)

text \<open>
  C7. The enumerated fields of an order are validated against closed sets.
  \<open>OrderStatusUpdate\<close> is accepted iff its status is one of \<open>pending\<close>, \<open>approved\<close>,
  \<open>rejected\<close>, is rejected otherwise, and an accepted update holds the member of that
  value. \<open>PlotOrderCreate\<close> is accepted iff its \<open>intended_use\<close> is one of \<open>residential\<close>,
  \<open>commercial\<close>, \<open>agricultural\<close>, \<open>industrial\<close>, \<open>mixed\<close> and its other fields pass their
  own validators; an accepted order holds the member of that value; with any other
  \<open>intended_use\<close> the order is rejected, and \<open>intended_use\<close> is among the fields in error
  exactly then.
\<close>

theorem order_enums_closed:
  "((\<exists>u. OrderStatusUpdate_validate st nt = Inr u)
      = (st \<in> {''pending'', ''approved'', ''rejected''})) \<and>
   ((\<exists>e. OrderStatusUpdate_validate st nt = Inl e)
      = (st \<notin> {''pending'', ''approved'', ''rejected''})) \<and>
   (\<forall>u. OrderStatusUpdate_validate st nt = Inr u \<longrightarrow>
      OrderStatus_value (osu_status u) = st \<and> osu_notes u = nt) \<and>
   ((''intended_use'' \<notin> set (PlotOrderCreate_errors EmailStr nm ph ml idn use))
      = (use \<in> {''residential'', ''commercial'', ''agricultural'', ''industrial'', ''mixed''})) \<and>
   ((\<exists>r. PlotOrderCreate_validate EmailStr nm ph ml idn use ont = Inr r)
      = (use \<in> {''residential'', ''commercial'', ''agricultural'', ''industrial'', ''mixed''}
         \<and> \<not> isl (validate_customer_name nm) \<and> \<not> isl (validate_customer_phone ph)
         \<and> (case ml of None \<Rightarrow> True | Some m \<Rightarrow> EmailStr m \<noteq> None)
         \<and> \<not> isl (validate_customer_id_number idn))) \<and>
   (\<forall>r. PlotOrderCreate_validate EmailStr nm ph ml idn use ont = Inr r \<longrightarrow>
      IntendedUse_value (intended_use r) = use) \<and>
   ((\<exists>e. PlotOrderCreate_validate EmailStr nm ph ml idn use ont = Inl e)
      \<or> use \<in> {''residential'', ''commercial'', ''agricultural'', ''industrial'', ''mixed''})"
proof -
  let ?S = "{''pending'', ''approved'', ''rejected''}"
  let ?U = "{''residential'', ''commercial'', ''agricultural'', ''industrial'', ''mixed''}"
  let ?errs = "PlotOrderCreate_errors EmailStr nm ph ml idn use"
  have os: "(OrderStatus_of st = None) = (st \<notin> ?S)"
    unfolding OrderStatus_of_def enum_lookup_None by simp
  have iu: "(IntendedUse_of use = None) = (use \<notin> ?U)"
    unfolding IntendedUse_of_def enum_lookup_None by simp
  have a: "(\<exists>u. OrderStatusUpdate_validate st nt = Inr u) = (st \<in> ?S)"
    using os by (auto simp: OrderStatusUpdate_validate_def split: option.splits)
  have b: "(\<exists>e. OrderStatusUpdate_validate st nt = Inl e) = (st \<notin> ?S)"
    using os by (auto simp: OrderStatusUpdate_validate_def split: option.splits)
  have b': "\<forall>u. OrderStatusUpdate_validate st nt = Inr u \<longrightarrow>
      OrderStatus_value (osu_status u) = st \<and> osu_notes u = nt"
  proof (intro allI impI)
    fix u assume u: "OrderStatusUpdate_validate st nt = Inr u"
    then obtain v where v: "OrderStatus_of st = Some v" and eq: "u = \<lparr>osu_status = v, osu_notes = nt\<rparr>"
      by (auto simp: OrderStatusUpdate_validate_def split: option.splits)
    from v have "OrderStatus_value v = st"
      unfolding OrderStatus_of_def by (rule enum_lookup_Some_value)
    with eq show "OrderStatus_value (osu_status u) = st \<and> osu_notes u = nt" by simp
  qed
  have c: "(''intended_use'' \<notin> set ?errs) = (use \<in> ?U)"
    using iu by (auto simp: PlotOrderCreate_errors_def split: option.splits)
  have nil: "(?errs = []) = (use \<in> ?U
         \<and> \<not> isl (validate_customer_name nm) \<and> \<not> isl (validate_customer_phone ph)
         \<and> (case ml of None \<Rightarrow> True | Some m \<Rightarrow> EmailStr m \<noteq> None)
         \<and> \<not> isl (validate_customer_id_number idn))"
    using iu by (auto simp: PlotOrderCreate_errors_def split: option.splits)
  have acc: "(\<exists>r. PlotOrderCreate_validate EmailStr nm ph ml idn use ont = Inr r) = (?errs = [])"
    by (cases ?errs) (simp_all add: PlotOrderCreate_validate_def)
  have val: "\<forall>r. PlotOrderCreate_validate EmailStr nm ph ml idn use ont = Inr r \<longrightarrow>
      IntendedUse_value (intended_use r) = use"
  proof (intro allI impI)
    fix r assume r: "PlotOrderCreate_validate EmailStr nm ph ml idn use ont = Inr r"
    then have e: "?errs = []" using acc by blast
    with nil iu obtain m where m: "IntendedUse_of use = Some m" by auto
    from r e m have "intended_use r = m"
      by (auto simp: PlotOrderCreate_validate_def)
    moreover from m have "IntendedUse_value m = use"
      unfolding IntendedUse_of_def by (rule enum_lookup_Some_value)
    ultimately show "IntendedUse_value (intended_use r) = use" by simp
  qed
  have d: "(\<exists>e. PlotOrderCreate_validate EmailStr nm ph ml idn use ont = Inl e) \<or> use \<in> ?U"
  proof (cases ?errs)
    case Nil
    with c show ?thesis by simp
  next
    case (Cons e es)
    then show ?thesis by (simp add: PlotOrderCreate_validate_def)
  qed
  from a b b' c acc nil val d show ?thesis by simp
qed

theorem order_enums_closed_witness:
  "OrderStatusUpdate_validate ''approved'' None
     = Inr \<lparr>osu_status = approved, osu_notes = None\<rparr> \<and>
   (\<exists>e. OrderStatusUpdate_validate ''cancelled'' None = Inl e) \<and>
   PlotOrderCreate_validate (\<lambda>m. Some m) ''Asha Juma'' ''+255 712 345 678'' None
          ''19900101-1'' ''mixed'' None
     = Inr \<lparr>customer_name = ''Asha Juma'', customer_phone = ''+255712345678'',
            customer_email = None, customer_id_number = ''19900101-1'',
            intended_use = mixed, order_notes = None\<rparr> \<and>
   (\<exists>e. PlotOrderCreate_validate (\<lambda>m. Some m) ''Asha Juma'' ''+255 712 345 678'' None
          ''19900101-1'' ''farming'' None = Inl e)"
proof -
  have acc: "PlotOrderCreate_validate (\<lambda>m. Some m) ''Asha Juma'' ''+255 712 345 678'' None
          ''19900101-1'' ''mixed'' None
     = Inr \<lparr>customer_name = ''Asha Juma'', customer_phone = ''+255712345678'',
            customer_email = None, customer_id_number = ''19900101-1'',
            intended_use = mixed, order_notes = None\<rparr>"
    by (simp add: PlotOrderCreate_validate_def PlotOrderCreate_errors_def
        validate_customer_name_def validate_customer_phone_def validate_customer_id_number_def
        IntendedUse_of_def strip_def lstrip_def rstrip_def isspace_def whitespace_chars_def
        startswith_def)
  show ?thesis
    using acc
      order_enums_closed [where st = "''cancelled''" and nt = None and EmailStr = "\<lambda>m. Some m"
        and nm = "''Asha Juma''" and ph = "''+255 712 345 678''" and ml = None
        and idn = "''19900101-1''" and use = "''farming''" and ont = None]
      order_enums_closed [where st = "''approved''" and nt = None and EmailStr = "\<lambda>m. Some m"
        and nm = "''Asha Juma''" and ph = "''+255 712 345 678''" and ml = None
        and idn = "''19900101-1''" and use = "''mixed''" and ont = None]
    by (simp add: OrderStatusUpdate_validate_def OrderStatus_of_def)
qed

text \<open>
  C9. \<open>validate_customer_phone\<close> accepts its input iff the whitespace-stripped input has at
  least 10 characters and, once spaces and hyphens are removed from it, starts with
  \<open>+255\<close>, \<open>255\<close> or \<open>0\<close>. The stored value is the stripped input without its spaces and
  hyphens. The length is tested before the separators are removed, so a stored value can
  be shorter than 10 characters.
\<close>

theorem customer_phone_rule:
  "validate_customer_phone v =
     (if 10 \<le> length (strip v) \<and>
         (let p = filter (\<lambda>c. c \<noteq> CHR '' '' \<and> c \<noteq> CHR ''-'') (strip v)
          in startswith p ''+255'' \<or> startswith p ''255'' \<or> startswith p ''0'')
      then Inr (filter (\<lambda>c. c \<noteq> CHR '' '' \<and> c \<noteq> CHR ''-'') (strip v))
      else Inl (if length (strip v) < 10
                then ValueError ''Customer phone must be at least 10 characters long''
                else ValueError ''Phone number must be a valid Tanzania number''))
   \<and> (\<exists>w p. validate_customer_phone w = Inr p \<and> length p < 10)"
proof -
  have f: "filter (\<lambda>c. c \<noteq> CHR '' '' \<and> c \<noteq> CHR ''-'') s
      = replace (replace s '' '' []) ''-'' []" for s
    by (simp add: replace_single_empty conj_commute)
  have e: "strip v = []" if "v = []"
    using that by (simp add: strip_def lstrip_def rstrip_def)
  have "validate_customer_phone ''0--------- '' = Inr ''0''"
    by (simp add: validate_customer_phone_def strip_def lstrip_def rstrip_def isspace_def
        whitespace_chars_def startswith_def)
  then have ex: "\<exists>w p. validate_customer_phone w = Inr p \<and> length p < 10"
    by force
  show ?thesis
    using e ex unfolding validate_customer_phone_def f Let_def by auto

qed

theorem customer_phone_rule_witness:
  "validate_customer_phone '' 0712 345-678  '' = Inr ''0712345678'' \<and>
   validate_customer_phone ''+255 712''
     = Inl (ValueError ''Customer phone must be at least 10 characters long'') \<and>
   validate_customer_phone ''1234567890''
     = Inl (ValueError ''Phone number must be a valid Tanzania number'')"
  using customer_phone_rule [of "'' 0712 345-678  ''"] customer_phone_rule [of "''+255 712''"]
    customer_phone_rule [of "''1234567890''"]
  by (simp add: strip_def lstrip_def rstrip_def isspace_def whitespace_chars_def startswith_def)

section \<open>Properties of the importer\<close>

lemma attempts_append: "attempts (xs @ ys) = attempts xs @ attempts ys"
  by (simp add: attempts_def)

lemma trace_log_event: "trace (log_event ev s) = trace s @ [ev]"
  by (simp add: log_event_def)

lemma db_log_event: "db (log_event ev s) = db s"
  by (simp add: log_event_def)

lemma temp_table_log_event: "temp_table (log_event ev s) = temp_table s"
  by (simp add: log_event_def)

lemma get_shapefile_info_exists:
  "fst (get_shapefile_info e s p) = Inr info \<Longrightarrow> info_exists info = path_exists e p"
  by (auto simp: get_shapefile_info_def Let_def split: outcome.splits prod.splits if_splits)

lemma get_shapefile_info_db: "db (snd (get_shapefile_info e s p)) = db s"
  by (simp add: get_shapefile_info_def Let_def db_log_event split: outcome.splits prod.splits)

lemma get_shapefile_info_temp_table: "temp_table (snd (get_shapefile_info e s p)) = temp_table s"
  by (simp add: get_shapefile_info_def Let_def temp_table_log_event
      split: outcome.splits prod.splits)

lemma get_shapefile_info_attempts:
  "attempts (trace (snd (get_shapefile_info e s p))) = attempts (trace s)"
  by (simp add: get_shapefile_info_def Let_def trace_log_event attempts_def
      split: outcome.splits prod.splits)

lemma check_gdal_availability_snd:
  "snd (check_gdal_availability e s)
     = log_event (Run [''ogr2ogr'', ''--version'']) (log_event (Call ''check_gdal_availability'') s)"
  by (simp add: check_gdal_availability_def Let_def split: outcome.splits)

lemma import_with_ogr2ogr_attempts:
  "attempts (trace (snd (import_with_ogr2ogr e s p)))
     = attempts (trace s) @ [Call ''import_with_ogr2ogr'']"
  by (simp add: import_with_ogr2ogr_def check_gdal_availability_def Let_def trace_log_event
      attempts_def split: prod.splits outcome.splits sum.splits)

lemma import_with_fallback_attempts:
  "attempts (trace (snd (import_with_fallback e s p)))
     = attempts (trace s) @ [Call ''import_with_fallback'']"
  by (simp add: import_with_fallback_def Let_def trace_log_event attempts_def
      split: prod.splits option.splits sum.splits outcome.splits)

lemma process_imported_data_attempts:
  "attempts (trace (snd (process_imported_data e s ds dt wd vl)))
     = attempts (trace s) @ [Call ''process_imported_data'']"
  by (simp add: process_imported_data_def Let_def trace_log_event attempts_def
      split: prod.splits option.splits sum.splits)

lemma land_plots_simps [simp]:
  "land_plots (current (execute f s)) = land_plots (f (current s))"
  "land_plots (committed (execute f s)) = land_plots (committed s)"
  "land_plots (current (commit s)) = land_plots (current s)"
  "land_plots (committed (commit s)) = land_plots (current s)"
  "land_plots (current (rollback s)) = land_plots (committed s)"
  "land_plots (committed (rollback s)) = land_plots (committed s)"
  "land_plots (DROP_TABLE_IF_EXISTS n d) = land_plots d"
  "land_plots (CREATE_TABLE n cols d) = land_plots d"
  by (simp_all add: execute_def commit_def rollback_def DROP_TABLE_IF_EXISTS_def CREATE_TABLE_def)

lemma tables_simps [simp]:
  "tables (current (execute f s)) = tables (f (current s))"
  "tables (committed (execute f s)) = tables (committed s)"
  "tables (current (commit s)) = tables (current s)"
  "tables (committed (commit s)) = tables (current s)"
  "tables (current (rollback s)) = tables (committed s)"
  "tables (committed (rollback s)) = tables (committed s)"
  "tables (DROP_TABLE_IF_EXISTS n d) = (tables d)(n := None)"
  "tables (CREATE_TABLE n cols d) = (tables d)(n \<mapsto> \<lparr>columns = cols, rows = []\<rparr>)"
  by (simp_all add: execute_def commit_def rollback_def DROP_TABLE_IF_EXISTS_def CREATE_TABLE_def)

lemma write_layer_land_plots [simp]:
  "land_plots (current (write_layer l w s)) = land_plots (current s)"
  "land_plots (committed (write_layer l w s)) = land_plots (committed s)"
  by (simp_all add: write_layer_def split: option.splits)

lemma write_layer_tables:
  "tables (current (write_layer l w s)) n =
     (if l = Some n \<and> w \<noteq> None then w else tables (current s) n)"
  "tables (committed (write_layer l w s)) n =
     (if l = Some n \<and> w \<noteq> None then w else tables (committed s) n)"
  by (auto simp: write_layer_def split: option.splits)

lemma INSERT_staging_keeps:
  "INSERT_staging tt g a d = Inr d' \<Longrightarrow>
     land_plots d' = land_plots d \<and> (\<forall>n. n \<noteq> tt \<longrightarrow> tables d' n = tables d n)"
  by (auto simp: INSERT_staging_def split: option.splits sum.splits)

lemma stage_feature_keeps:
  "stage_feature e tr tt f s = Inr s' \<Longrightarrow>
     committed s' = committed s \<and> land_plots (current s') = land_plots (current s)
     \<and> (\<forall>n. n \<noteq> tt \<longrightarrow> tables (current s') n = tables (current s) n)"
  by (auto simp: stage_feature_def Let_def split: option.splits sum.splits
      dest: INSERT_staging_keeps)

lemma stage_features_keeps:
  "stage_features e tr tt fs s = Inr s' \<Longrightarrow>
     committed s' = committed s \<and> land_plots (current s') = land_plots (current s)
     \<and> (\<forall>n. n \<noteq> tt \<longrightarrow> tables (current s') n = tables (current s) n)"
proof (induction fs arbitrary: s)
  case Nil
  then show ?case by simp
next
  case (Cons f fs)
  from Cons.prems obtain s1 where 1: "stage_feature e tr tt f s = Inr s1"
    and 2: "stage_features e tr tt fs s1 = Inr s'"
    by (auto split: sum.splits)
  from stage_feature_keeps [OF 1] Cons.IH [OF 2] show ?case by simp
qed

lemma option_value_nln:
  "p \<noteq> ''-nln'' \<Longrightarrow> option_value (ogr2ogr_cmd (pg_conn u) p tt) ''-nln'' = Some tt"
  by (simp add: ogr2ogr_cmd_def pg_conn_def)

lemma import_with_ogr2ogr_temp_table [simp]:
  "temp_table (snd (import_with_ogr2ogr e s p)) = temp_table s"
  by (simp add: import_with_ogr2ogr_def check_gdal_availability_def Let_def log_event_def
      split: prod.splits outcome.splits sum.splits)

lemma import_with_fallback_temp_table [simp]:
  "temp_table (snd (import_with_fallback e s p)) = temp_table s"
  by (simp add: import_with_fallback_def Let_def log_event_def
      split: prod.splits option.splits sum.splits outcome.splits)

lemma import_with_ogr2ogr_staging_only:
  assumes "p \<noteq> ''-nln''"
  shows "staging_only (temp_table s) (db s) (db (snd (import_with_ogr2ogr e s p)))"
  using option_value_nln [OF assms]
  by (simp add: import_with_ogr2ogr_def check_gdal_availability_def Let_def db_log_event
      temp_table_log_event staging_only_def write_layer_tables
      split: prod.splits outcome.splits sum.splits)

lemma import_with_ogr2ogr_land_plots:
  "land_plots (current (db (snd (import_with_ogr2ogr e s p)))) = land_plots (current (db s))"
  by (simp add: import_with_ogr2ogr_def check_gdal_availability_def Let_def db_log_event
      temp_table_log_event split: prod.splits outcome.splits sum.splits)

lemma import_with_fallback_staging_only:
  "staging_only (temp_table s) (db s) (db (snd (import_with_fallback e s p)))"
proof -
  let ?s1 = "execute (DROP_TABLE_IF_EXISTS (temp_table s)) (db s)"
  let ?s2 = "commit (execute (CREATE_TABLE (temp_table s) fallback_columns) ?s1)"
  have base: "staging_only (temp_table s) (db s) ?s2"
    "staging_only (temp_table s) (db s) (rollback ?s2)"
    "staging_only (temp_table s) (db s) (db s)"
    by (simp_all add: staging_only_def)
  show ?thesis
  proof (cases "fallback_libraries e")
    case (Completed u)
    show ?thesis
    proof (cases "fiona_open e p")
      case None
      with Completed base show ?thesis
        by (simp add: import_with_fallback_def Let_def db_log_event temp_table_log_event)
    next
      case (Some src)
      show ?thesis
      proof (cases "stage_features e (fallback_transformer e src) (temp_table s) (features src) ?s2")
        case (Inl err)
        with Completed Some base show ?thesis
          by (simp add: import_with_fallback_def Let_def db_log_event temp_table_log_event)
      next
        case (Inr s3)
        from stage_features_keeps [OF Inr] have "staging_only (temp_table s) (db s) (commit s3)"
          by (simp add: staging_only_def)
        with Completed Some Inr show ?thesis
          by (simp add: import_with_fallback_def Let_def db_log_event temp_table_log_event)
      qed
    qed
  next
    case Failed
    with base show ?thesis
      by (simp add: import_with_fallback_def Let_def db_log_event)
  next
    case (Raised err)
    with base show ?thesis
      by (simp add: import_with_fallback_def Let_def db_log_event)
  qed
qed

lemma import_with_fallback_land_plots:
  "land_plots (current (db (snd (import_with_fallback e s p)))) = land_plots (current (db s))"
  using import_with_fallback_staging_only [of s e p] by (simp add: staging_only_def)

text \<open>
  C10. When the shapefile path does not exist, \<open>import_shapefile\<close> raises
  \<open>FileNotFoundError\<close> before it attempts either import method, and the database is
  unchanged: the session and the staging table name come back as they were, and the
  trace has grown by the entry of \<open>import_shapefile\<close> and of \<open>get_shapefile_info\<close> only,
  which returned early without running a program.
\<close>

theorem import_shapefile_missing_file:
  assumes "\<not> path_exists e p"
  shows "import_shapefile e self p ds dt wd vl =
           (Inl (FileNotFoundError (''Shapefile not found: '' @ p)),
            self\<lparr>trace := trace self @ [Call ''import_shapefile'', Call ''get_shapefile_info'']\<rparr>)"
  using assms
  by (simp add: import_shapefile_def get_shapefile_info_def Let_def log_event_def)

theorem import_shapefile_missing_file_witness:
  "\<not> path_exists example_env ''/data/none.shp'' \<and>
   fst (import_shapefile example_env example_importer ''/data/none.shp'' ''mb'' ''D'' ''W'' ''V'')
     = Inl (FileNotFoundError ''Shapefile not found: /data/none.shp'') \<and>
   db (snd (import_shapefile example_env example_importer ''/data/none.shp'' ''mb'' ''D'' ''W'' ''V''))
     = db example_importer"
proof -
  have h: "\<not> path_exists example_env ''/data/none.shp''"
    by (simp add: example_env_def)
  show ?thesis
    using h import_shapefile_missing_file [OF h, of example_importer "''mb''" "''D''" "''W''" "''V''"]
    by simp
qed

text \<open>
  C1 (as amended). For an existing shapefile path, when \<open>get_shapefile_info\<close> returns,
  \<open>import_shapefile\<close> first attempts \<open>import_with_ogr2ogr\<close>; it attempts
  \<open>import_with_fallback\<close> exactly when that attempt returned \<open>False\<close>; it enters
  \<open>process_imported_data\<close> exactly when one of the two returned \<open>True\<close>, on the state that
  attempt left; when both return \<open>False\<close> it raises
  \<open>Exception('Both import methods failed')\<close>. An exception that leaves
  \<open>get_shapefile_info\<close> or one of the attempts leaves \<open>import_shapefile\<close> at that point,
  with no later attempt. Whenever \<open>process_imported_data\<close> is not entered, \<open>land_plots\<close>
  is as the session saw it before.
\<close>

theorem import_shapefile_attempt_order:
  assumes "path_exists e p"
  shows "let start = get_shapefile_info e (log_event (Call ''import_shapefile'') self) p;
             native = import_with_ogr2ogr e (snd start) p;
             fb = import_with_fallback e (snd native) p;
             run = import_shapefile e self p ds dt wd vl
         in (case fst start of
               Inl err \<Rightarrow>
                 run = (Inl err, snd start)
                 \<and> attempts (trace (snd run)) = attempts (trace self)
                 \<and> land_plots (current (db (snd run))) = land_plots (current (db self))
             | Inr info \<Rightarrow>
                 (case fst native of
                    Inl err \<Rightarrow>
                      run = (Inl err, snd native)
                      \<and> attempts (trace (snd run))
                          = attempts (trace self) @ [Call ''import_with_ogr2ogr'']
                      \<and> land_plots (current (db (snd run))) = land_plots (current (db self))
                  | Inr native_ok \<Rightarrow>
                      if native_ok
                      then run = process_imported_data e (snd native) ds dt wd vl
                           \<and> attempts (trace (snd run))
                               = attempts (trace self)
                                   @ [Call ''import_with_ogr2ogr'', Call ''process_imported_data'']
                      else
                        (case fst fb of
                           Inl err \<Rightarrow>
                             run = (Inl err, snd fb)
                             \<and> attempts (trace (snd run))
                                 = attempts (trace self)
                                     @ [Call ''import_with_ogr2ogr'', Call ''import_with_fallback'']
                             \<and> land_plots (current (db (snd run))) = land_plots (current (db self))
                         | Inr fb_ok \<Rightarrow>
                             if fb_ok
                             then run = process_imported_data e (snd fb) ds dt wd vl
                                  \<and> attempts (trace (snd run))
                                      = attempts (trace self)
                                          @ [Call ''import_with_ogr2ogr'',
                                             Call ''import_with_fallback'',
                                             Call ''process_imported_data'']
                             else run = (Inl (Exception ''Both import methods failed''), snd fb)
                                  \<and> attempts (trace (snd run))
                                      = attempts (trace self)
                                          @ [Call ''import_with_ogr2ogr'',
                                             Call ''import_with_fallback'']
                                  \<and> land_plots (current (db (snd run)))
                                      = land_plots (current (db self)))))"
proof -
  define self0 where "self0 = log_event (Call ''import_shapefile'') self"
  define start where "start = get_shapefile_info e self0 p"
  define native where "native = import_with_ogr2ogr e (snd start) p"
  define fb where "fb = import_with_fallback e (snd native) p"
  have a0: "attempts (trace self0) = attempts (trace self)"
    by (simp add: self0_def trace_log_event attempts_def)
  have a1: "attempts (trace (snd start)) = attempts (trace self)"
    by (simp add: start_def get_shapefile_info_attempts a0)
  have a2: "attempts (trace (snd native)) = attempts (trace self) @ [Call ''import_with_ogr2ogr'']"
    by (simp add: native_def import_with_ogr2ogr_attempts a1)
  have a3: "attempts (trace (snd fb)) =
      attempts (trace self) @ [Call ''import_with_ogr2ogr'', Call ''import_with_fallback'']"
    by (simp add: fb_def import_with_fallback_attempts a2)
  have l1: "land_plots (current (db (snd start))) = land_plots (current (db self))"
    by (simp add: start_def get_shapefile_info_db self0_def db_log_event)
  have l2: "land_plots (current (db (snd native))) = land_plots (current (db self))"
    by (simp add: native_def import_with_ogr2ogr_land_plots l1)
  have l3: "land_plots (current (db (snd fb))) = land_plots (current (db self))"
    by (simp add: fb_def import_with_fallback_land_plots l2)
  have ex: "info_exists info" if "fst start = Inr info" for info
    using that assms get_shapefile_info_exists [of e self0 p info] by (simp add: start_def)
  have unf: "import_shapefile e self p ds dt wd vl =
      (case fst start of
         Inl err \<Rightarrow> (Inl err, snd start)
       | Inr info \<Rightarrow>
           (case fst native of
              Inl err \<Rightarrow> (Inl err, snd native)
            | Inr native_ok \<Rightarrow>
                if native_ok then process_imported_data e (snd native) ds dt wd vl
                else (case fst fb of
                        Inl err \<Rightarrow> (Inl err, snd fb)
                      | Inr fb_ok \<Rightarrow>
                          if fb_ok then process_imported_data e (snd fb) ds dt wd vl
                          else (Inl (Exception ''Both import methods failed''), snd fb))))"
  proof (cases start)
    case (Pair r1 s1)
    show ?thesis
    proof (cases r1)
      case (Inl err)
      with Pair show ?thesis
        by (simp add: import_shapefile_def self0_def [symmetric] start_def [symmetric])
    next
      case (Inr info)
      with Pair ex [of info] have ie: "info_exists info" by simp
      obtain r2 s2 where n: "native = (r2, s2)" by (cases native)
      obtain r3 s3 where f: "fb = (r3, s3)" by (cases fb)
      from n have n': "import_with_ogr2ogr e s1 p = (r2, s2)"
        using Pair by (simp add: native_def)
      from f have f': "import_with_fallback e s2 p = (r3, s3)"
        using n by (simp add: fb_def)
      show ?thesis
        using Pair Inr ie n n' f f'
        by (simp add: import_shapefile_def self0_def [symmetric] start_def [symmetric]
            split: sum.splits)
    qed
  qed
  show ?thesis
    unfolding Let_def self0_def [symmetric] start_def [symmetric] native_def [symmetric]
      fb_def [symmetric] unf
    by (simp add: process_imported_data_attempts a1 a2 a3 l1 l2 l3 split: sum.splits)
qed

theorem import_shapefile_attempt_order_witness:
  "path_exists example_env ''/data/plots.shp'' \<and>
   attempts (trace (snd (import_shapefile example_env example_importer ''/data/plots.shp''
                          ''mb'' ''D'' ''W'' ''V'')))
     = [Call ''import_with_ogr2ogr'', Call ''import_with_fallback'', Call ''process_imported_data'']"
proof -
  have h: "path_exists example_env ''/data/plots.shp''"
    by (simp add: example_env_def)
  have s: "fst (get_shapefile_info example_env s ''/data/plots.shp'')
      = Inr \<lparr>info_path = ''/data/plots.shp'', info_exists = True, info_size = 1024,
             info_crs = None, info_feature_count = 0, info_bounds = None, info_fields = []\<rparr>" for s
    by (simp add: get_shapefile_info_def Let_def example_env_def)
  have n: "fst (import_with_ogr2ogr example_env s ''/data/plots.shp'') = Inr False" for s
    by (simp add: import_with_ogr2ogr_def check_gdal_availability_def example_env_def Let_def)
  have t: "attempts (trace example_importer) = []"
    by (simp add: example_importer_def ShapefileImporter_init_def attempts_def)
  have f: "fst (import_with_fallback example_env s ''/data/plots.shp'') = Inr True"
    if "temp_table s = ''temp_shapefile_import''" for s
    using that
    by (simp add: import_with_fallback_def fallback_transformer_def stage_feature_def
        dumps_properties_def INSERT_staging_def ST_GeomFromGeoJSON_def
        geometry_MultiPolygon_4326_def has_z_def CREATE_TABLE_def DROP_TABLE_IF_EXISTS_def
        execute_def commit_def example_env_def example_source_def square_def Let_def
        temp_table_log_event)
  have tt: "temp_table (snd (import_with_ogr2ogr example_env
       (snd (get_shapefile_info example_env (log_event (Call ''import_shapefile'') example_importer)
          ''/data/plots.shp'')) ''/data/plots.shp'')) = ''temp_shapefile_import''"
    by (simp add: get_shapefile_info_temp_table temp_table_log_event example_importer_def
        ShapefileImporter_init_def)
  note [simp] = s n t f [OF tt]
  show ?thesis
    using h import_shapefile_attempt_order [OF h, of example_importer "''mb''" "''D''" "''W''" "''V''",
        unfolded Let_def, simplified, THEN conjunct2]
    by simp
qed

text \<open>
  The claim as first stated, that every existing path leads to a native attempt, fails
  where \<open>ogrinfo\<close> raises an exception other than the two that \<open>get_shapefile_info\<close>
  catches: the path exists, the error leaves \<open>import_shapefile\<close>, and no attempt was made.
\<close>

theorem import_shapefile_attempt_order_counterexample:
  "path_exists example_denied_env ''/data/plots.shp'' \<and>
   fst (import_shapefile example_denied_env example_importer ''/data/plots.shp''
          ''mb'' ''D'' ''W'' ''V'') = Inl (OSError ''Permission denied'') \<and>
   attempts (trace (snd (import_shapefile example_denied_env example_importer ''/data/plots.shp''
                           ''mb'' ''D'' ''W'' ''V''))) = []"
  by (simp add: import_shapefile_def get_shapefile_info_def Let_def log_event_def
      example_denied_env_def example_env_def example_importer_def ShapefileImporter_init_def
      attempts_def)

subsection \<open>The import methods and the generated statements\<close>





lemma ON_CONFLICT_DO_NOTHING_added:
  "\<exists>added. ON_CONFLICT_DO_NOTHING ex sel = ex @ added \<and> set added \<subseteq> set sel
     \<and> (\<forall>q \<in> set added. plot_code q \<notin> set (map plot_code ex))"
proof (induction sel arbitrary: ex)
  case Nil
  then show ?case by simp
next
  case (Cons p ps)
  show ?case
  proof (cases "plot_code p \<in> set (map plot_code ex)")
    case True
    with Cons.IH [of ex] show ?thesis by auto
  next
    case False
    from Cons.IH [of "ex @ [p]"] obtain added where
      a: "ON_CONFLICT_DO_NOTHING (ex @ [p]) ps = (ex @ [p]) @ added" and
      b: "set added \<subseteq> set ps" and
      c: "\<forall>q \<in> set added. plot_code q \<notin> set (map plot_code (ex @ [p]))"
      by blast
    have "ON_CONFLICT_DO_NOTHING ex (p # ps) = ex @ (p # added)"
      using False a by simp
    moreover have "set (p # added) \<subseteq> set (p # ps)" using b by auto
    moreover have "\<forall>q \<in> set (p # added). plot_code q \<notin> set (map plot_code ex)"
      using False c by auto
    ultimately show ?thesis by blast
  qed
qed


lemma ON_CONFLICT_DO_NOTHING_covers:
  "plot_code ` set sel \<subseteq> plot_code ` set (ON_CONFLICT_DO_NOTHING ex sel)"
proof (induction sel arbitrary: ex)
  case Nil
  then show ?case by simp
next
  case (Cons p ps)
  have sub: "set ex' \<subseteq> set (ON_CONFLICT_DO_NOTHING ex' ps)" for ex'
    using ON_CONFLICT_DO_NOTHING_added [of ex' ps] by auto
  show ?case
  proof (cases "plot_code p \<in> set (map plot_code ex)")
    case True
    with Cons.IH [of ex] sub [of ex] show ?thesis by auto
  next
    case False
    with Cons.IH [of "ex @ [p]"] sub [of "ex @ [p]"] show ?thesis by auto
  qed
qed



lemma not_has_z: "(\<not> has_z s) = list_all (\<lambda>(x, y, z). z = None) (coords_of s)"
  by (auto simp: has_z_def list_ex_iff list_all_iff case_prod_beta)

lemma geometry_MultiPolygon_4326_Inr:
  "geometry_MultiPolygon_4326 g = Inr gm \<Longrightarrow> is_2d_multipolygon_4326 gm \<and> shp gm = shp g"
  unfolding is_2d_multipolygon_4326_def not_has_z [symmetric]
  by (cases "shp g") (auto simp: geometry_MultiPolygon_4326_def Let_def split: if_splits)

lemma select_geometry_Inr:
  "select_geometry g = Inr gm \<Longrightarrow>
     is_2d_multipolygon_4326 gm
     \<and> shp gm = multi (transform (\<lambda>(x, y, z). (x, y, None)) (shp g))"
  by (auto simp: select_geometry_def ST_Multi_def ST_Force2D_def dest!: geometry_MultiPolygon_4326_Inr)










lemma import_with_ogr2ogr_True:
  assumes "fst (import_with_ogr2ogr e s p) = Inr True" and "p \<noteq> ''-nln''"
  shows "gdal_version e = Completed ()
     \<and> fst (ogr2ogr e (ogr2ogr_cmd (pg_conn (engine_url e)) p (temp_table s)))
     \<and> Run (ogr2ogr_cmd (pg_conn (engine_url e)) p (temp_table s))
         \<in> set (trace (snd (import_with_ogr2ogr e s p)))
     \<and> tables (current (db (snd (import_with_ogr2ogr e s p)))) (temp_table s)
         = snd (ogr2ogr e (ogr2ogr_cmd (pg_conn (engine_url e)) p (temp_table s)))
     \<and> tables (committed (db (snd (import_with_ogr2ogr e s p))))
         = tables (current (db (snd (import_with_ogr2ogr e s p))))
     \<and> land_plots (committed (db (snd (import_with_ogr2ogr e s p))))
         = land_plots (current (db (snd (import_with_ogr2ogr e s p))))"
proof -
  from assms(1) have g: "gdal_version e = Completed ()"
    by (cases "gdal_version e")
      (simp_all add: import_with_ogr2ogr_def check_gdal_availability_def Let_def)
  obtain ok written where o: "ogr2ogr e (ogr2ogr_cmd (pg_conn (engine_url e)) p (temp_table s))
      = (ok, written)"
    by (cases "ogr2ogr e (ogr2ogr_cmd (pg_conn (engine_url e)) p (temp_table s))")
  show ?thesis
    using assms(1) g o option_value_nln [OF assms(2)]
    by (cases written)
      (auto simp: import_with_ogr2ogr_def check_gdal_availability_def Let_def log_event_def
        write_layer_def fun_eq_iff)
qed

lemma COALESCE_first_present:
  "COALESCE (map Inr ts) d = Inr (case first_present ts of Some s \<Rightarrow> s | None \<Rightarrow> d)"
  by (induction ts rule: first_present.induct) simp_all

lemma select_attributes_full:
  assumes "select_attributes e ds dt wd vl n r = Inr q"
  shows "plot_code q = (case first_present (map (json_text e (as_jsonb (cell_of r ''attributes'')))
                              [''plot_code'', ''PLOT_CODE'', ''plotcode'', ''code'']) of
                          Some s \<Rightarrow> s | None \<Rightarrow> default_plot_code ds n)
       \<and> district q = dt \<and> ward q = wd \<and> village q = vl \<and> dataset_name q = ds
       \<and> attributes q = as_jsonb (cell_of r ''attributes'')
       \<and> created_at q = NOW e \<and> updated_at q = NOW e"
proof -
  let ?a = "as_jsonb (cell_of r ''attributes'')"
  have c: "COALESCE [Inr (json_text e ?a ''plot_code''), Inr (json_text e ?a ''PLOT_CODE''),
                    Inr (json_text e ?a ''plotcode''), Inr (json_text e ?a ''code'')]
             (default_plot_code ds n)
      = Inr (case first_present (map (json_text e ?a)
                              [''plot_code'', ''PLOT_CODE'', ''plotcode'', ''code'']) of
                          Some s \<Rightarrow> s | None \<Rightarrow> default_plot_code ds n)"
    using COALESCE_first_present [of "map (json_text e ?a)
        [''plot_code'', ''PLOT_CODE'', ''plotcode'', ''code'']" "default_plot_code ds n"]
    by simp
  from assms show ?thesis
    unfolding select_attributes_def Let_def c
    by (auto split: cell.splits sum.splits)
qed

lemma select_columns_full:
  assumes "select_columns e cols ds dt wd vl n r = Inr q"
  shows "plot_code q = (case first_present
                               (case find (\<lambda>c. lower c \<in> set [''plot_code'', ''plotcode'', ''code'',
                                                               ''plot_no'', ''plotnum''])
                                       (attr_columns_of cols) of
                                  None \<Rightarrow> []
                                | Some c \<Rightarrow> [as_text (cell_of r (ident c))]) of
                          Some s \<Rightarrow> s | None \<Rightarrow> default_plot_code ds n)
       \<and> district q = dt \<and> ward q = wd \<and> village q = vl \<and> dataset_name q = ds
       \<and> attributes q = Some (map (\<lambda>c. (c, to_jsonb (cell_of r (ident c)))) (attr_columns_of cols))
       \<and> created_at q = NOW e \<and> updated_at q = NOW e"
proof -
  have c: "COALESCE [Inr x] d = Inr (case first_present [x] of Some s \<Rightarrow> s | None \<Rightarrow> d)"
    for x :: "string option" and d
    using COALESCE_first_present [of "[x]" d] by simp
  from assms show ?thesis
    unfolding select_columns_def Let_def plot_code_col_of_def c
    by (auto split: cell.splits sum.splits option.splits)
qed

lemma select_row_full:
  assumes "select_row e t ds dt wd vl n r = Inr q"
  shows "plot_code q = plot_code_rule e t ds n r
       \<and> district q = dt \<and> ward q = wd \<and> village q = vl \<and> dataset_name q = ds
       \<and> attributes q = attributes_rule t r
       \<and> created_at q = NOW e \<and> updated_at q = NOW e"
proof (cases "has_attributes_col t")
  case True
  with assms have "select_attributes e ds dt wd vl n r = Inr q"
    by (simp add: select_row_def)
  from select_attributes_full [OF this, unfolded default_plot_code_def] True show ?thesis
    unfolding plot_code_rule_def plot_code_candidates_def attributes_rule_def by simp
next
  case False
  with assms have "select_columns e (columns t) ds dt wd vl n r = Inr q"
    by (simp add: select_row_def)
  from select_columns_full [OF this, unfolded default_plot_code_def] False show ?thesis
    unfolding plot_code_rule_def plot_code_candidates_def attributes_rule_def by simp
qed


subsection \<open>The rows that are inserted\<close>















subsection \<open>Plot codes stay unique\<close>




















end
